theory Spec2Isabelle
  imports Main
begin

section \<open>Data model (app.py, lines 31-38)\<close>

text \<open>
  The two pydantic models of the program. \<open>front\<close>, \<open>back\<close>, \<open>title\<close> and
  \<open>flashcards\<close> are required fields (\<open>Field(...)\<close>); \<open>explanation\<close> is
  \<open>Optional[str]\<close> with default \<open>None\<close>. The declarations put no constraint on
  the length of a string or of the list.
\<close>

record Flashcard =
  front :: string
  "back" :: string
  explanation :: "string option"

record FlashcardSet =
  title :: string
  flashcards :: "Flashcard list"

section \<open>Exceptions and the collaborators of the engine\<close>

text \<open>
  Exceptions are values. \<open>KeyError v\<close> is raised when a prompt template names a
  variable \<open>v\<close> that the call does not supply, \<open>ValueError\<close> when the template is
  malformed, \<open>AttributeError m\<close> when an attribute that an object does not have is
  read (\<open>m\<close> is the \<open>str\<close> of the exception); \<open>Exception m\<close> stands for any
  other exception, \<open>m\<close> being its \<open>str\<close>. \<open>NotModelled\<close> marks template
  syntax that the model of the formatter below does not cover.
\<close>

datatype exn =
    KeyError string
  | ValueError
  | AttributeError string
  | NotModelled string
  | Exception string

text \<open>
  A \<open>PydanticOutputParser\<close> for a response model whose instances have type \<open>'m\<close>:
  its format instructions (the schema description appended to the prompt) and its
  \<open>parse\<close> method, which returns the instance or raises; \<open>Inl m\<close> is a raised
  exception whose \<open>str\<close> is \<open>m\<close>.
\<close>

record 'm parser =
  get_format_instructions :: string
  parse :: "string \<Rightarrow> string + 'm"

text \<open>
  The model of a call is typed \<open>Optional[Any]\<close>, and so is what it returns. The
  program reads one attribute of the reply, \<open>content\<close> (lines 110 and 115): a reply
  is \<open>Content text\<close> when it has the attribute, as the message of a chat model has,
  and \<open>NoContent m\<close> when it has not (a completion model returns a plain \<open>str\<close>),
  \<open>m\<close> being the \<open>str\<close> of the \<open>AttributeError\<close> that reading it raises.
\<close>

datatype reply =
    Content string
  | NoContent string

text \<open>
  A model: it receives the rendered prompt and returns a reply, or raises (invalid
  credentials, network unreachable, remote error).
\<close>

type_synonym chat_model = "string \<Rightarrow> exn + reply"

text \<open>
  What the program takes from its libraries: the parser that
  \<open>PydanticOutputParser(pydantic_object=FlashcardSet)\<close> builds for the default
  schema, and the rendering of a \<open>PromptTemplate\<close> (construction of the template
  followed by its formatting with the variables of the call; the variables are an
  association list in which the first binding of a name wins).
\<close>

record library =
  flashcard_set_parser :: "FlashcardSet parser"
  render :: "string \<Rightarrow> (string \<times> string) list \<Rightarrow> exn + string"

record ContentEngine =
  llm :: chat_model

text \<open>
  The object a call returns: an instance of \<open>FlashcardSet\<close>, or an instance of the
  response model that the caller supplied in place of it.
\<close>

datatype 'm structured_output =
    FlashcardSetObj FlashcardSet
  | ModelObj 'm

section \<open>Python strings\<close>

definition join_lines :: "string list \<Rightarrow> string" where
  "join_lines ls = (case ls of [] \<Rightarrow> [] | l # rest \<Rightarrow> l @ concat (map (\<lambda>x. CHR 0x0A # x) rest))"

fun str_nat :: "nat \<Rightarrow> string" where
  "str_nat n =
     (if n < 10 then [char_of (48 + n)]
      else str_nat (n div 10) @ [char_of (48 + n mod 10)])"

definition str_int :: "int \<Rightarrow> string" where
  "str_int i = (if i < 0 then CHR ''-'' # str_nat (nat (- i)) else str_nat (nat i))"

section \<open>ContentEngine.generate_flashcards (app.py, lines 58-116)\<close>

text \<open>The default prompt template (lines 74-90), a triple-quoted literal.\<close>

definition default_prompt_template :: string where
  "default_prompt_template = join_lines [
      '''',
      ''            Generate a set of {num} flashcards on the topic: {topic}.'',
      '''',
      ''            For each flashcard, provide:'',
      ''            1. A front side with a question or key term'',
      ''            2. A back side with the answer or definition'',
      ''            3. An optional explanation or additional context'',
      '''',
      ''            The flashcards should cover key concepts, terminology, and important facts related to the topic.'',
      '''',
      ''            Ensure that the output follows this structure:'',
      ''            - A title for the flashcard set (the main topic)'',
      ''            - A list of flashcards, each containing:'',
      ''              - front: The question or key term'',
      ''              - back: The answer or definition'',
      ''              - explanation: Additional context or explanation (optional)'',
      ''            '']"

definition additional_instructions_header :: string where
  "additional_instructions_header = join_lines ['''', '''', ''Additional Instructions:'', '''']"

definition json_format_footer :: string where
  "json_format_footer =
     join_lines ['''', '''', ''The response should be in JSON format.'', ''{format_instructions}'']"

text \<open>
  Lines 73-95: the template is the caller's or the default one; custom instructions are
  appended when they are truthy (neither \<open>None\<close> nor the empty string); the request for
  JSON and the placeholder of the format instructions come last.
\<close>

definition base_prompt_template :: "string option \<Rightarrow> string" where
  "base_prompt_template prompt_template =
     (case prompt_template of None \<Rightarrow> default_prompt_template | Some t \<Rightarrow> t)"

definition compose_prompt_template :: "string option \<Rightarrow> string option \<Rightarrow> string" where
  "compose_prompt_template prompt_template custom_instructions =
     (let t = base_prompt_template prompt_template;
          t = (case custom_instructions of
                 None \<Rightarrow> t
               | Some ci \<Rightarrow> if ci \<noteq> [] then t @ additional_instructions_header @ ci else t)
      in t @ json_format_footer)"

text \<open>
  Lines 68-71: the parser is built for the supplied response model, or for
  \<open>FlashcardSet\<close> when none is supplied; its format instructions describe the schema.
\<close>

definition output_parser :: "library \<Rightarrow> 'm parser option \<Rightarrow> 'm structured_output parser" where
  "output_parser lib response_model =
     (case response_model of
        None \<Rightarrow>
          \<lparr>get_format_instructions = get_format_instructions (flashcard_set_parser lib),
           parse = (\<lambda>text. map_sum id FlashcardSetObj (parse (flashcard_set_parser lib) text))\<rparr>
      | Some rm \<Rightarrow>
          \<lparr>get_format_instructions = get_format_instructions rm,
           parse = (\<lambda>text. map_sum id ModelObj (parse rm text))\<rparr>)"

text \<open>
  Lines 97-107, the prompt: the composed template is rendered with the extra keyword
  arguments of the call (they come last in the dictionary of line 106, so they are
  looked up first), with \<open>num\<close> and \<open>topic\<close>, and with the format instructions as
  a partial variable.
\<close>

definition flashcard_prompt ::
  "library \<Rightarrow> string \<Rightarrow> int \<Rightarrow> string option \<Rightarrow> string option \<Rightarrow> 'm parser option \<Rightarrow>
   (string \<times> string) list \<Rightarrow> exn + string" where
  "flashcard_prompt lib topic num prompt_template custom_instructions response_model kwargs =
     render lib (compose_prompt_template prompt_template custom_instructions)
       (kwargs @ [(''num'', str_int num), (''topic'', topic),
                  (''format_instructions'', get_format_instructions (output_parser lib response_model))])"

text \<open>
  Lines 103-107, the chain: the chat model of the call, or else the engine's own,
  receives the rendered prompt. \<open>sent\<close> records the prompts that reached the model;
  when rendering raises, the model is not called.
\<close>

definition llm_to_use :: "ContentEngine \<Rightarrow> chat_model option \<Rightarrow> chat_model" where
  "llm_to_use self llm_opt = (case llm_opt of Some m \<Rightarrow> m | None \<Rightarrow> llm self)"

record invocation =
  results :: "exn + reply"
  sent :: "string list"

definition flashcard_chain_invoke ::
  "library \<Rightarrow> ContentEngine \<Rightarrow> string \<Rightarrow> int \<Rightarrow> string option \<Rightarrow> string option \<Rightarrow>
   'm parser option \<Rightarrow> chat_model option \<Rightarrow> (string \<times> string) list \<Rightarrow> invocation" where
  "flashcard_chain_invoke lib self topic num prompt_template custom_instructions
       response_model llm_opt kwargs =
     (case flashcard_prompt lib topic num prompt_template custom_instructions response_model kwargs of
        Inl e \<Rightarrow> \<lparr>results = Inl e, sent = []\<rparr>
      | Inr prompt \<Rightarrow> \<lparr>results = llm_to_use self llm_opt prompt, sent = [prompt]\<rparr>)"

text \<open>
  The outcome of a call: the value returned or the exception raised, the lines printed
  on standard output, and the prompts sent to the model. Lines 109-116: the content of
  the reply is parsed; an exception of the parser is caught, reported by three
  \<open>print\<close> calls, and replaced by an empty \<open>FlashcardSet\<close> titled with the topic.
  An exception of the chain is not caught. For a reply without \<open>content\<close>, line 110
  raises \<open>AttributeError\<close> inside the \<open>try\<close>; it is caught, lines 113 and 114
  print, and line 115 reads \<open>results.content\<close> again, in the handler, where the
  \<open>AttributeError\<close> is not caught: the call raises it after two lines of output.
\<close>

record 'm outcome =
  returned :: "exn + 'm structured_output"
  stdout :: "string list"
  prompts :: "string list"

definition generate_flashcards ::
  "library \<Rightarrow> ContentEngine \<Rightarrow> string \<Rightarrow> int \<Rightarrow> string option \<Rightarrow> string option \<Rightarrow>
   'm parser option \<Rightarrow> chat_model option \<Rightarrow> (string \<times> string) list \<Rightarrow> 'm outcome" where
  "generate_flashcards lib self topic num prompt_template custom_instructions
       response_model llm_opt kwargs =
     (let parser = output_parser lib response_model;
          inv = flashcard_chain_invoke lib self topic num prompt_template custom_instructions
                  response_model llm_opt kwargs
      in case results inv of
           Inl e \<Rightarrow> \<lparr>returned = Inl e, stdout = [], prompts = sent inv\<rparr>
         | Inr (Content content) \<Rightarrow>
             (case parse parser content of
                Inr structured_output \<Rightarrow>
                  \<lparr>returned = Inr structured_output, stdout = [], prompts = sent inv\<rparr>
              | Inl e \<Rightarrow>
                  \<lparr>returned = Inr (FlashcardSetObj \<lparr>title = topic, flashcards = []\<rparr>),
                   stdout = [''Error parsing output: '' @ e, ''Raw output:'', content],
                   prompts = sent inv\<rparr>)
         | Inr (NoContent e) \<Rightarrow>
             \<lparr>returned = Inl (AttributeError e),
              stdout = [''Error parsing output: '' @ e, ''Raw output:''],
              prompts = sent inv\<rparr>)"

section \<open>The page script (app.py, lines 131-152)\<close>

text \<open>
  One run of the script after the widgets are read: \<open>pressed\<close> is the value of
  \<open>st.button\<close>, \<open>topic\<close> that of the text input, \<open>num_cards\<close> that of the number
  input. The page records the calls of \<open>generate_flashcards\<close> it made, the elements it
  drew, what was printed, and the exception that ended the run, if any. The literals
  of the script start with an emoji, written here as its UTF-8 bytes.
\<close>

datatype element =
    Spinner string
  | Success string
  | Expander string "string list"
  | Warning string

record page =
  generate_calls :: "(string \<times> int) list"
  elements :: "element list"
  printed :: "string list"
  uncaught :: "exn option"

definition spinner_text :: string where
  "spinner_text = [CHR 0xF0, CHR 0x9F, CHR 0xA7, CHR 0xA0] @ '' Generating flashcards...''"

definition warning_text :: string where
  "warning_text =
     [CHR 0xE2, CHR 0x9A, CHR 0xA0, CHR 0xEF, CHR 0xB8, CHR 0x8F]
       @ '' Please enter a topic for the flashcards.''"

definition success_text :: "FlashcardSet \<Rightarrow> string" where
  "success_text flashcard_set =
     [CHR 0xE2, CHR 0x9C, CHR 0x85] @ '' Generated '' @ str_nat (length (flashcards flashcard_set))
       @ '' flashcards for '' @ [CHR 0x27] @ title flashcard_set @ [CHR 0x27]"

definition flashcard_expander :: "nat \<times> Flashcard \<Rightarrow> element" where
  "flashcard_expander p =
     (case p of (i, flashcard) \<Rightarrow>
        Expander (''Flashcard '' @ str_nat i @ '': '' @ front flashcard)
          ((''**Back:** '' @ back flashcard)
           # (case explanation flashcard of
                None \<Rightarrow> []
              | Some x \<Rightarrow> if x \<noteq> [] then [''**Explanation:** '' @ x] else [])))"

definition generate_button_handler ::
  "library \<Rightarrow> ContentEngine \<Rightarrow> bool \<Rightarrow> string \<Rightarrow> int \<Rightarrow> page" where
  "generate_button_handler lib content_engine pressed topic num_cards =
     (if pressed then
        (if topic \<noteq> [] then
           (let out = generate_flashcards lib content_engine topic num_cards None None
                        (None :: unit parser option) None []
            in case returned out of
                 Inl e \<Rightarrow>
                   \<lparr>generate_calls = [(topic, num_cards)], elements = [Spinner spinner_text],
                    printed = stdout out, uncaught = Some e\<rparr>
               | Inr (FlashcardSetObj flashcard_set) \<Rightarrow>
                   \<lparr>generate_calls = [(topic, num_cards)],
                    elements = Spinner spinner_text # Success (success_text flashcard_set)
                      # map flashcard_expander (List.enumerate 1 (flashcards flashcard_set)),
                    printed = stdout out, uncaught = None\<rparr>
               | Inr (ModelObj m) \<Rightarrow>
                   \<lparr>generate_calls = [(topic, num_cards)], elements = [Spinner spinner_text],
                    printed = stdout out, uncaught = Some (Exception ''AttributeError'')\<rparr>)
         else
           \<lparr>generate_calls = [], elements = [Warning warning_text], printed = [],
            uncaught = None\<rparr>)
      else \<lparr>generate_calls = [], elements = [], printed = [], uncaught = None\<rparr>)"

section \<open>The f-string template format of PromptTemplate\<close>

text \<open>
  \<open>PromptTemplate\<close> renders its default template format with Python's
  \<open>str.format\<close>: \<open>{{\<close> and \<open>}}\<close> stand for one brace, \<open>{name}\<close> is replaced by
  the value of the variable \<open>name\<close>, a lone \<open>}\<close> or an unclosed \<open>{\<close> is a
  \<open>ValueError\<close>, and a name without a value is a \<open>KeyError\<close>. The template is
  scanned as a whole before any variable is looked up. The model covers replacement
  fields that hold a plain variable name; a field with a conversion, a format
  specification, an attribute, an index, a nested field, no name or a number is
  reported as \<open>NotModelled\<close>.
\<close>

datatype piece = Literal char | Field string

fun scan :: "string option \<Rightarrow> string \<Rightarrow> exn + piece list" where
  "scan None [] = Inr []"
| "scan (Some f) [] = Inl ValueError"
| "scan None (c # cs) =
     (if c = CHR ''{'' then
        (case cs of
           [] \<Rightarrow> Inl ValueError
         | d # ds \<Rightarrow>
             if d = CHR ''{'' then map_sum id ((#) (Literal CHR ''{'')) (scan None ds)
             else scan (Some []) cs)
      else if c = CHR ''}'' then
        (case cs of
           [] \<Rightarrow> Inl ValueError
         | d # ds \<Rightarrow>
             if d = CHR ''}'' then map_sum id ((#) (Literal CHR ''}'')) (scan None ds)
             else Inl ValueError)
      else map_sum id ((#) (Literal c)) (scan None cs))"
| "scan (Some f) (c # cs) =
     (if c = CHR ''}'' then map_sum id ((#) (Field (rev f))) (scan None cs)
      else if c = CHR ''{'' then Inl (NotModelled (rev f))
      else scan (Some (c # f)) cs)"

definition plain_name :: "string \<Rightarrow> bool" where
  "plain_name f =
     (f \<noteq> [] \<and> list_all (\<lambda>c. c \<notin> set ''.[!:'') f
      \<and> \<not> list_all (\<lambda>c. c \<in> set ''0123456789'') f)"

fun fill :: "(string \<times> string) list \<Rightarrow> piece list \<Rightarrow> exn + string" where
  "fill vars [] = Inr []"
| "fill vars (Literal c # ps) = map_sum id ((#) c) (fill vars ps)"
| "fill vars (Field f # ps) =
     (if plain_name f then
        (case map_of vars f of
           None \<Rightarrow> Inl (KeyError f)
         | Some v \<Rightarrow> map_sum id ((@) v) (fill vars ps))
      else Inl (NotModelled f))"

definition py_format :: "string \<Rightarrow> (string \<times> string) list \<Rightarrow> exn + string" where
  "py_format template vars =
     (case scan None template of Inl e \<Rightarrow> Inl e | Inr ps \<Rightarrow> fill vars ps)"

section \<open>Stand-ins for the collaborators\<close>

text \<open>
  Concrete collaborators for the closed theorems below: a chat model that always
  replies with a message of a fixed text, a completion model that always returns a
  plain \<open>str\<close>, a model that cannot be reached, a parser that accepts one text and
  yields the object it describes (any other text is rejected), and the library whose
  renderer is \<open>py_format\<close>.
\<close>

definition model_replying :: "string \<Rightarrow> chat_model" where
  "model_replying text = (\<lambda>prompt. Inr (Content text))"



definition model_unreachable :: chat_model where
  "model_unreachable = (\<lambda>prompt. Inl (Exception ''Connection error.''))"

definition parser_accepting :: "string \<Rightarrow> string \<Rightarrow> 'm \<Rightarrow> 'm parser" where
  "parser_accepting schema text obj =
     \<lparr>get_format_instructions = schema,
      parse = (\<lambda>s. if s = text then Inr obj else Inl ''Invalid json output'')\<rparr>"

definition library_accepting :: "string \<Rightarrow> FlashcardSet \<Rightarrow> library" where
  "library_accepting text obj =
     \<lparr>flashcard_set_parser = parser_accepting ''The output should be a JSON object.'' text obj,
      render = py_format\<rparr>"

definition one_card_reply :: string where
  \<open>one_card_reply =
     ''{"title": "Python Programming", "flashcards": [{"front": "What is a list?", "back": "A mutable sequence"}]}''\<close>

definition one_card_set :: FlashcardSet where
  "one_card_set =
     \<lparr>title = ''Python Programming'',
      flashcards = [\<lparr>front = ''What is a list?'', back = ''A mutable sequence'', explanation = None\<rparr>]\<rparr>"

definition prose_reply :: string where
  "prose_reply = ''Sorry, I cannot help with that.''"

definition two_card_reply :: string where
  \<open>two_card_reply =
     ''{"title": "Python Programming", "flashcards": [{"front": "What is a list?", "back": "A mutable sequence"}, {"front": "What is a tuple?", "back": "An immutable sequence"}]}''\<close>

definition two_card_set :: FlashcardSet where
  "two_card_set =
     \<lparr>title = ''Python Programming'',
      flashcards = [\<lparr>front = ''What is a list?'', back = ''A mutable sequence'', explanation = None\<rparr>,
                    \<lparr>front = ''What is a tuple?'', back = ''An immutable sequence'', explanation = None\<rparr>]\<rparr>"

definition no_card_reply :: string where
  \<open>no_card_reply = ''{"title": "Python Programming", "flashcards": []}''\<close>

definition no_card_set :: FlashcardSet where
  "no_card_set = \<lparr>title = ''Python Programming'', flashcards = []\<rparr>"

definition keyword_list_parser :: "string list parser" where
  "keyword_list_parser = parser_accepting ''The output should be a JSON object.'' ''[]'' []"

section \<open>Notions used in the statements about rendering\<close>

text \<open>
  A text is brace-free when the formatter copies it unchanged. The default template is
  cut at its two replacement fields into three brace-free segments; the footer is the
  request for JSON followed by the field of the format instructions. The section that
  lines 92-93 add for custom instructions is empty when they are absent or empty.
\<close>

definition brace_free :: "string \<Rightarrow> bool" where
  "brace_free xs = list_all (\<lambda>c. c \<noteq> CHR ''{'' \<and> c \<noteq> CHR ''}'') xs"

definition default_head :: string where
  "default_head = CHR 0x0A # ''            Generate a set of ''"

definition default_mid :: string where
  "default_mid = '' flashcards on the topic: ''"

definition default_tail :: string where
  "default_tail = join_lines [
      ''.'',
      '''',
      ''            For each flashcard, provide:'',
      ''            1. A front side with a question or key term'',
      ''            2. A back side with the answer or definition'',
      ''            3. An optional explanation or additional context'',
      '''',
      ''            The flashcards should cover key concepts, terminology, and important facts related to the topic.'',
      '''',
      ''            Ensure that the output follows this structure:'',
      ''            - A title for the flashcard set (the main topic)'',
      ''            - A list of flashcards, each containing:'',
      ''              - front: The question or key term'',
      ''              - back: The answer or definition'',
      ''              - explanation: Additional context or explanation (optional)'',
      ''            '']"

definition json_request :: string where
  "json_request = join_lines ['''', '''', ''The response should be in JSON format.'', '''']"

definition instructions_section :: "string option \<Rightarrow> string" where
  "instructions_section custom_instructions =
     (case custom_instructions of
        None \<Rightarrow> []
      | Some ci \<Rightarrow> if ci \<noteq> [] then additional_instructions_header @ ci else [])"

section \<open>The formatter on brace-free text and on plain fields\<close>

lemma scan_literal:
  "brace_free xs \<Longrightarrow> scan None ys = Inr ps \<Longrightarrow> scan None (xs @ ys) = Inr (map Literal xs @ ps)"
  by (induction xs) (simp_all add: brace_free_def)

lemma scan_field_rest:
  "brace_free f \<Longrightarrow> scan None ys = Inr ps \<Longrightarrow>
   scan (Some acc) (f @ CHR ''}'' # ys) = Inr (Field (rev acc @ f) # ps)"
  by (induction f arbitrary: acc) (simp_all add: brace_free_def)

lemma scan_field:
  assumes "brace_free f" and "f \<noteq> []" and "scan None ys = Inr ps"
  shows "scan None (CHR ''{'' # f @ CHR ''}'' # ys) = Inr (Field f # ps)"
proof -
  obtain d ds where f: "f = d # ds" using assms(2) by (cases f) auto
  with assms(1) have "d \<noteq> CHR ''{''" by (simp add: brace_free_def)
  with f have "scan None (CHR ''{'' # f @ CHR ''}'' # ys) = scan (Some []) (f @ CHR ''}'' # ys)"
    by simp
  with scan_field_rest [OF assms(1,3), of "[]"] show ?thesis by simp
qed

lemma fill_literals:
  "fill vars ps = Inr r \<Longrightarrow> fill vars (map Literal xs @ ps) = Inr (xs @ r)"
  by (induction xs) simp_all

lemma scan_of_py_format:
  "py_format ys vars = Inr r \<Longrightarrow> \<exists>ps. scan None ys = Inr ps \<and> fill vars ps = Inr r"
  by (cases "scan None ys") (simp_all add: py_format_def)

lemma py_format_literal:
  assumes "brace_free xs" and "py_format ys vars = Inr r"
  shows "py_format (xs @ ys) vars = Inr (xs @ r)"
proof -
  from scan_of_py_format [OF assms(2)] obtain ps
    where ps: "scan None ys = Inr ps" "fill vars ps = Inr r" by blast
  from scan_literal [OF assms(1) ps(1)] fill_literals [OF ps(2), of xs]
  show ?thesis by (simp add: py_format_def)
qed

lemma py_format_field:
  assumes "brace_free f" and "plain_name f" and "map_of vars f = Some v"
    and "py_format ys vars = Inr r"
  shows "py_format (CHR ''{'' # f @ CHR ''}'' # ys) vars = Inr (v @ r)"
proof -
  from scan_of_py_format [OF assms(4)] obtain ps
    where ps: "scan None ys = Inr ps" "fill vars ps = Inr r" by blast
  from assms(2) have "f \<noteq> []" by (simp add: plain_name_def)
  from scan_field [OF assms(1) this ps(1)] ps(2) assms(2,3) show ?thesis
    by (simp add: py_format_def)
qed

lemma py_format_field_missing:
  assumes "brace_free f" and "plain_name f" and "map_of vars f = None"
    and "scan None ys = Inr ps"
  shows "py_format (CHR ''{'' # f @ CHR ''}'' # ys) vars = Inl (KeyError f)"
proof -
  from assms(2) have "f \<noteq> []" by (simp add: plain_name_def)
  from scan_field [OF assms(1) this assms(4)] assms(2,3) show ?thesis
    by (simp add: py_format_def)
qed

lemma py_format_Nil: "py_format [] vars = Inr []"
  by (simp add: py_format_def)

section \<open>The default prompt as rendered\<close>

text \<open>
  With the default template, no extra variables and brace-free custom instructions, the
  rendered prompt states the count and the topic, then carries the custom instructions
  verbatim, then the format instructions of the schema.
\<close>

lemma default_prompt_template_fields:
  "default_prompt_template =
     default_head @ CHR ''{'' # ''num'' @ CHR ''}'' # default_mid @ CHR ''{'' # ''topic'' @ CHR ''}'' # default_tail"
  by (simp add: default_prompt_template_def default_head_def default_mid_def default_tail_def join_lines_def)

lemma json_format_footer_fields:
  "json_format_footer = json_request @ CHR ''{'' # ''format_instructions'' @ CHR ''}'' # []"
  by (simp add: json_format_footer_def json_request_def join_lines_def)

lemma brace_free_segments:
  "brace_free default_head" "brace_free default_mid" "brace_free default_tail"
  "brace_free json_request" "brace_free additional_instructions_header"
  "brace_free ''num''" "brace_free ''topic''" "brace_free ''format_instructions''"
  by (simp_all add: brace_free_def default_head_def default_mid_def default_tail_def
      json_request_def additional_instructions_header_def join_lines_def)

lemma plain_names: "plain_name ''num''" "plain_name ''topic''" "plain_name ''format_instructions''"
  by (simp_all add: plain_name_def)

lemma brace_free_append: "brace_free (xs @ ys) \<longleftrightarrow> brace_free xs \<and> brace_free ys"
  by (simp add: brace_free_def)

lemma default_prompt_rendered:
  assumes "brace_free (instructions_section ci)"
  shows "py_format (compose_prompt_template None ci)
           [(''num'', n), (''topic'', t), (''format_instructions'', fi)] =
         Inr (default_head @ n @ default_mid @ t @ default_tail
                @ instructions_section ci @ json_request @ fi)"
proof -
  let ?vars = "[(''num'', n), (''topic'', t), (''format_instructions'', fi)]"
  have split: "compose_prompt_template None ci =
      default_head @ CHR ''{'' # ''num'' @ CHR ''}'' # default_mid @ CHR ''{'' # ''topic'' @ CHR ''}'' #
        (default_tail @ instructions_section ci @ json_request) @
        CHR ''{'' # ''format_instructions'' @ CHR ''}'' # []"
    unfolding compose_prompt_template_def base_prompt_template_def instructions_section_def
      json_format_footer_fields default_prompt_template_fields
    by (simp add: Let_def split: option.splits)
  have bf: "brace_free (default_tail @ instructions_section ci @ json_request)"
    using assms by (simp add: brace_free_append brace_free_segments)
  have f3: "py_format (CHR ''{'' # ''format_instructions'' @ CHR ''}'' # []) ?vars = Inr (fi @ [])"
    by (rule py_format_field [OF brace_free_segments(8) plain_names(3) _ py_format_Nil]) simp
  have f2: "py_format ((default_tail @ instructions_section ci @ json_request) @
        CHR ''{'' # ''format_instructions'' @ CHR ''}'' # []) ?vars =
      Inr ((default_tail @ instructions_section ci @ json_request) @ fi @ [])"
    by (rule py_format_literal [OF bf f3])
  have f1: "py_format (CHR ''{'' # ''topic'' @ CHR ''}'' #
        (default_tail @ instructions_section ci @ json_request) @
        CHR ''{'' # ''format_instructions'' @ CHR ''}'' # []) ?vars =
      Inr (t @ (default_tail @ instructions_section ci @ json_request) @ fi @ [])"
    by (rule py_format_field [OF brace_free_segments(7) plain_names(2) _ f2]) simp
  have f0: "py_format (CHR ''{'' # ''num'' @ CHR ''}'' # default_mid @ CHR ''{'' # ''topic'' @ CHR ''}'' #
        (default_tail @ instructions_section ci @ json_request) @
        CHR ''{'' # ''format_instructions'' @ CHR ''}'' # []) ?vars =
      Inr (n @ default_mid @ t @ (default_tail @ instructions_section ci @ json_request) @ fi @ [])"
    by (rule py_format_field [OF brace_free_segments(6) plain_names(1) _
          py_format_literal [OF brace_free_segments(2) f1]]) simp
  from py_format_literal [OF brace_free_segments(1) f0] show ?thesis
    unfolding split by simp
qed

section \<open>The exits of generate_flashcards\<close>

lemma parse_output_parser_None:
  "parse (output_parser lib None) text = map_sum id FlashcardSetObj (parse (flashcard_set_parser lib) text)"
  by (simp add: output_parser_def)

lemma parse_output_parser_Some:
  "parse (output_parser lib (Some rm)) text = map_sum id ModelObj (parse rm text)"
  by (simp add: output_parser_def)

lemma generate_flashcards_raised:
  assumes "results (flashcard_chain_invoke lib self topic num pt ci rm llm_opt kwargs) = Inl e"
  shows "generate_flashcards lib self topic num pt ci rm llm_opt kwargs =
           \<lparr>returned = Inl e, stdout = [],
            prompts = sent (flashcard_chain_invoke lib self topic num pt ci rm llm_opt kwargs)\<rparr>"
  using assms by (simp add: generate_flashcards_def Let_def)

lemma generate_flashcards_parsed:
  assumes "results (flashcard_chain_invoke lib self topic num pt ci rm llm_opt kwargs) = Inr (Content content)"
    and "parse (output_parser lib rm) content = Inr obj"
  shows "generate_flashcards lib self topic num pt ci rm llm_opt kwargs =
           \<lparr>returned = Inr obj, stdout = [],
            prompts = sent (flashcard_chain_invoke lib self topic num pt ci rm llm_opt kwargs)\<rparr>"
  using assms by (simp add: generate_flashcards_def Let_def)

lemma generate_flashcards_fallback:
  assumes "results (flashcard_chain_invoke lib self topic num pt ci rm llm_opt kwargs) = Inr (Content content)"
    and "parse (output_parser lib rm) content = Inl msg"
  shows "generate_flashcards lib self topic num pt ci rm llm_opt kwargs =
           \<lparr>returned = Inr (FlashcardSetObj \<lparr>title = topic, flashcards = []\<rparr>),
            stdout = [''Error parsing output: '' @ msg, ''Raw output:'', content],
            prompts = sent (flashcard_chain_invoke lib self topic num pt ci rm llm_opt kwargs)\<rparr>"
  using assms by (simp add: generate_flashcards_def Let_def)

lemma generate_flashcards_no_content:
  assumes "results (flashcard_chain_invoke lib self topic num pt ci rm llm_opt kwargs)
             = Inr (NoContent msg)"
  shows "generate_flashcards lib self topic num pt ci rm llm_opt kwargs =
           \<lparr>returned = Inl (AttributeError msg),
            stdout = [''Error parsing output: '' @ msg, ''Raw output:''],
            prompts = sent (flashcard_chain_invoke lib self topic num pt ci rm llm_opt kwargs)\<rparr>"
  using assms by (simp add: generate_flashcards_def Let_def)

lemma default_model_returns_FlashcardSet:
  "returned (generate_flashcards lib self topic num pt ci (None :: 'm parser option) llm_opt kwargs)
     \<noteq> Inr (ModelObj obj)"
proof (cases "results (flashcard_chain_invoke lib self topic num pt ci
                (None :: 'm parser option) llm_opt kwargs)")
  case (Inl e)
  from generate_flashcards_raised [OF this] show ?thesis by simp
next
  case (Inr r)
  show ?thesis
  proof (cases r)
    case (Content content)
    with Inr have res: "results (flashcard_chain_invoke lib self topic num pt ci
        (None :: 'm parser option) llm_opt kwargs) = Inr (Content content)" by simp
    show ?thesis
    proof (cases "parse (flashcard_set_parser lib) content")
      case (Inl msg)
      then have "parse (output_parser lib (None :: 'm parser option)) content = Inl msg"
        by (simp add: parse_output_parser_None)
      from generate_flashcards_fallback [OF res this] show ?thesis by simp
    next
      case (Inr parsed)
      then have "parse (output_parser lib (None :: 'm parser option)) content
          = Inr (FlashcardSetObj parsed)"
        by (simp add: parse_output_parser_None)
      from generate_flashcards_parsed [OF res this] show ?thesis by simp
    qed
  next
    case (NoContent msg)
    with Inr have "results (flashcard_chain_invoke lib self topic num pt ci
        (None :: 'm parser option) llm_opt kwargs) = Inr (NoContent msg)" by simp
    from generate_flashcards_no_content [OF this] show ?thesis by simp
  qed
qed

lemma prompts_generate_flashcards:
  "prompts (generate_flashcards lib self topic num pt ci rm llm_opt kwargs) =
     sent (flashcard_chain_invoke lib self topic num pt ci rm llm_opt kwargs)"
  by (simp add: generate_flashcards_def Let_def split: sum.splits reply.splits)

lemma sent_flashcard_chain_invoke:
  "sent (flashcard_chain_invoke lib self topic num pt ci rm llm_opt kwargs) =
     (case flashcard_prompt lib topic num pt ci rm kwargs of Inl e \<Rightarrow> [] | Inr prompt \<Rightarrow> [prompt])"
  by (simp add: flashcard_chain_invoke_def split: sum.splits)

lemma results_flashcard_chain_invoke:
  "results (flashcard_chain_invoke lib self topic num pt ci rm llm_opt kwargs) =
     (case flashcard_prompt lib topic num pt ci rm kwargs of
        Inl e \<Rightarrow> Inl e | Inr prompt \<Rightarrow> llm_to_use self llm_opt prompt)"
  by (simp add: flashcard_chain_invoke_def split: sum.splits)

lemma default_flashcard_prompt:
  assumes "render lib = py_format" and "brace_free (instructions_section ci)"
  shows "flashcard_prompt lib topic num None ci rm [] =
           Inr (default_head @ str_int num @ default_mid @ topic @ default_tail
                  @ instructions_section ci @ json_request
                  @ get_format_instructions (output_parser lib rm))"
  using default_prompt_rendered [OF assms(2)] assms(1) by (simp add: flashcard_prompt_def)

lemma default_chain_results:
  assumes "render lib = py_format" and "brace_free (instructions_section ci)"
  shows "results (flashcard_chain_invoke lib self topic num None ci rm llm_opt []) =
           llm_to_use self llm_opt
             (default_head @ str_int num @ default_mid @ topic @ default_tail
                @ instructions_section ci @ json_request
                @ get_format_instructions (output_parser lib rm))"
  by (simp add: results_flashcard_chain_invoke default_flashcard_prompt [OF assms])

lemma render_library_accepting: "render (library_accepting text obj) = py_format"
  by (simp add: library_accepting_def)

lemma brace_free_no_instructions: "brace_free (instructions_section None)"
  by (simp add: instructions_section_def brace_free_def)

lemma replying_chain_results:
  "results (flashcard_chain_invoke (library_accepting text obj) \<lparr>llm = model_replying reply\<rparr>
      topic num None None rm None []) = Inr (Content reply)"
  by (simp add: default_chain_results [OF render_library_accepting brace_free_no_instructions]
      llm_to_use_def model_replying_def)

lemma parse_library_accepting:
  "parse (flashcard_set_parser (library_accepting text obj)) s =
     (if s = text then Inr obj else Inl ''Invalid json output'')"
  by (simp add: library_accepting_def parser_accepting_def)

section \<open>Parse failures (C1, C8)\<close>

text \<open>
  Claim C1. Whatever the topic, the count and the other arguments, when the chain
  returns a reply text that the parser of the call rejects (for any reason: malformed
  JSON, a missing required field, a type mismatch), \<open>generate_flashcards\<close> does not
  raise: it returns the fallback \<open>FlashcardSet\<close> whose title is the topic and whose
  list of flashcards is empty, and it prints the diagnostic, that is the message of the
  parser's exception and the raw reply.
\<close>

theorem parse_failure_returns_fallback:
  assumes "results (flashcard_chain_invoke lib self topic num pt ci rm llm_opt kwargs) = Inr (Content content)"
    and "parse (output_parser lib rm) content = Inl msg"
  shows "returned (generate_flashcards lib self topic num pt ci rm llm_opt kwargs) =
           Inr (FlashcardSetObj \<lparr>title = topic, flashcards = []\<rparr>)
         \<and> stdout (generate_flashcards lib self topic num pt ci rm llm_opt kwargs) =
           [''Error parsing output: '' @ msg, ''Raw output:'', content]"
  by (simp add: generate_flashcards_fallback [OF assms])

text \<open>
  The statement at the example of the specification: the model answers in plain prose
  to a request for 5 cards on Python Programming.
\<close>

theorem parse_failure_returns_fallback_witness:
  "results (flashcard_chain_invoke (library_accepting one_card_reply one_card_set)
      \<lparr>llm = model_replying prose_reply\<rparr> ''Python Programming'' 5 None None
      (None :: unit parser option) None []) = Inr (Content prose_reply)
   \<and> parse (output_parser (library_accepting one_card_reply one_card_set)
        (None :: unit parser option)) prose_reply = Inl ''Invalid json output''
   \<and> returned (generate_flashcards (library_accepting one_card_reply one_card_set)
        \<lparr>llm = model_replying prose_reply\<rparr> ''Python Programming'' 5 None None
        (None :: unit parser option) None []) =
       Inr (FlashcardSetObj \<lparr>title = ''Python Programming'', flashcards = []\<rparr>)
   \<and> stdout (generate_flashcards (library_accepting one_card_reply one_card_set)
        \<lparr>llm = model_replying prose_reply\<rparr> ''Python Programming'' 5 None None
        (None :: unit parser option) None []) =
       [''Error parsing output: '' @ ''Invalid json output'', ''Raw output:'', prose_reply]"
proof -
  have h1: "results (flashcard_chain_invoke (library_accepting one_card_reply one_card_set)
      \<lparr>llm = model_replying prose_reply\<rparr> ''Python Programming'' 5 None None
      (None :: unit parser option) None []) = Inr (Content prose_reply)"
    by (rule replying_chain_results)
  have h2: "parse (output_parser (library_accepting one_card_reply one_card_set)
        (None :: unit parser option)) prose_reply = Inl ''Invalid json output''"
    by (simp add: parse_output_parser_None parse_library_accepting prose_reply_def one_card_reply_def)
  from parse_failure_returns_fallback [OF h1 h2] h1 h2 show ?thesis by blast
qed

text \<open>
  Claim C8. When the caller supplies a response model of its own and the parser built
  for it rejects the reply, the value returned is still the default-schema
  \<open>FlashcardSet\<close> (title = topic, no flashcards) and never an instance of the
  supplied model.
\<close>

theorem custom_model_parse_failure_returns_FlashcardSet:
  assumes "results (flashcard_chain_invoke lib self topic num pt ci (Some rm) llm_opt kwargs)
             = Inr (Content content)"
    and "parse rm content = Inl msg"
  shows "returned (generate_flashcards lib self topic num pt ci (Some rm) llm_opt kwargs) =
           Inr (FlashcardSetObj \<lparr>title = topic, flashcards = []\<rparr>)
         \<and> (\<forall>obj. returned (generate_flashcards lib self topic num pt ci (Some rm) llm_opt kwargs)
               \<noteq> Inr (ModelObj obj))"
proof -
  from assms(2) have "parse (output_parser lib (Some rm)) content = Inl msg"
    by (simp add: parse_output_parser_Some)
  from generate_flashcards_fallback [OF assms(1) this] show ?thesis by simp
qed

text \<open>The statement for a response model whose instances are lists of keywords.\<close>

theorem custom_model_parse_failure_returns_FlashcardSet_witness:
  "results (flashcard_chain_invoke (library_accepting one_card_reply one_card_set)
      \<lparr>llm = model_replying prose_reply\<rparr> ''Python Programming'' 5 None None
      (Some keyword_list_parser) None []) = Inr (Content prose_reply)
   \<and> parse keyword_list_parser prose_reply = Inl ''Invalid json output''
   \<and> returned (generate_flashcards (library_accepting one_card_reply one_card_set)
        \<lparr>llm = model_replying prose_reply\<rparr> ''Python Programming'' 5 None None
        (Some keyword_list_parser) None []) =
       Inr (FlashcardSetObj \<lparr>title = ''Python Programming'', flashcards = []\<rparr>)"
proof -
  have h1: "results (flashcard_chain_invoke (library_accepting one_card_reply one_card_set)
      \<lparr>llm = model_replying prose_reply\<rparr> ''Python Programming'' 5 None None
      (Some keyword_list_parser) None []) = Inr (Content prose_reply)"
    by (rule replying_chain_results)
  have h2: "parse keyword_list_parser prose_reply = Inl ''Invalid json output''"
    by (simp add: keyword_list_parser_def parser_accepting_def prose_reply_def)
  from custom_model_parse_failure_returns_FlashcardSet [OF h1 h2] h1 h2 show ?thesis by blast
qed

section \<open>Conforming replies (C2, C3)\<close>

text \<open>
  Claim C2 says that a reply conforming to the schema yields exactly \<open>count\<close>
  flashcards and a non-empty title. The code returns what the parser built and compares
  nothing with \<open>num\<close>: for a request of 5 cards on Python Programming, a conforming
  reply that holds one card is returned with its one card.
\<close>

theorem conforming_reply_one_card_for_five:
  "(1 :: int) \<le> 5 \<and> (5 :: int) \<le> 20
   \<and> parse (flashcard_set_parser (library_accepting one_card_reply one_card_set)) one_card_reply
       = Inr one_card_set
   \<and> returned (generate_flashcards (library_accepting one_card_reply one_card_set)
        \<lparr>llm = model_replying one_card_reply\<rparr> ''Python Programming'' 5 None None
        (None :: unit parser option) None []) = Inr (FlashcardSetObj one_card_set)
   \<and> length (flashcards one_card_set) \<noteq> 5"
proof -
  have p: "parse (output_parser (library_accepting one_card_reply one_card_set)
        (None :: unit parser option)) one_card_reply = Inr (FlashcardSetObj one_card_set)"
    by (simp add: parse_output_parser_None parse_library_accepting)
  have r: "returned (generate_flashcards (library_accepting one_card_reply one_card_set)
        \<lparr>llm = model_replying one_card_reply\<rparr> ''Python Programming'' 5 None None
        (None :: unit parser option) None []) = Inr (FlashcardSetObj one_card_set)"
    by (simp add: generate_flashcards_parsed [OF replying_chain_results p])
  have l: "length (flashcards one_card_set) \<noteq> 5"
    by (simp add: one_card_set_def)
  from r l show ?thesis by (simp add: parse_library_accepting)
qed

text \<open>
  Claim C2 as amended. For every topic and count, when the reply of the model conforms
  to the declared schema (the parser of \<open>FlashcardSet\<close> accepts it),
  \<open>generate_flashcards\<close> returns the parsed \<open>FlashcardSet\<close> itself and prints
  nothing: the flashcards and the title are those of the reply, so the length is
  \<open>count\<close> and the title non-empty exactly when the reply is so.
\<close>

theorem conforming_reply_returned_as_parsed:
  assumes "results (flashcard_chain_invoke lib self topic num pt ci
             (None :: 'm parser option) llm_opt kwargs) = Inr (Content content)"
    and "parse (flashcard_set_parser lib) content = Inr flashcard_set"
  shows "returned (generate_flashcards lib self topic num pt ci
           (None :: 'm parser option) llm_opt kwargs) = Inr (FlashcardSetObj flashcard_set)
         \<and> stdout (generate_flashcards lib self topic num pt ci
           (None :: 'm parser option) llm_opt kwargs) = []"
proof -
  from assms(2) have "parse (output_parser lib (None :: 'm parser option)) content
      = Inr (FlashcardSetObj flashcard_set)"
    by (simp add: parse_output_parser_None)
  from generate_flashcards_parsed [OF assms(1) this] show ?thesis by simp
qed

text \<open>The statement for a request of 2 cards answered with 2 cards.\<close>

theorem conforming_reply_returned_as_parsed_witness:
  "results (flashcard_chain_invoke (library_accepting two_card_reply two_card_set)
      \<lparr>llm = model_replying two_card_reply\<rparr> ''Python Programming'' 2 None None
      (None :: unit parser option) None []) = Inr (Content two_card_reply)
   \<and> parse (flashcard_set_parser (library_accepting two_card_reply two_card_set)) two_card_reply
       = Inr two_card_set
   \<and> returned (generate_flashcards (library_accepting two_card_reply two_card_set)
        \<lparr>llm = model_replying two_card_reply\<rparr> ''Python Programming'' 2 None None
        (None :: unit parser option) None []) = Inr (FlashcardSetObj two_card_set)
   \<and> stdout (generate_flashcards (library_accepting two_card_reply two_card_set)
        \<lparr>llm = model_replying two_card_reply\<rparr> ''Python Programming'' 2 None None
        (None :: unit parser option) None []) = []"
proof -
  have h1: "results (flashcard_chain_invoke (library_accepting two_card_reply two_card_set)
      \<lparr>llm = model_replying two_card_reply\<rparr> ''Python Programming'' 2 None None
      (None :: unit parser option) None []) = Inr (Content two_card_reply)"
    by (rule replying_chain_results)
  have h2: "parse (flashcard_set_parser (library_accepting two_card_reply two_card_set))
      two_card_reply = Inr two_card_set"
    by (simp add: parse_library_accepting)
  from conforming_reply_returned_as_parsed [OF h1 h2] h1 h2 show ?thesis by blast
qed

text \<open>
  Claim C3 says that the number of flashcards lies between 0 and the requested count
  and is 0 only on the fallback path. Neither holds: a conforming reply with two cards
  to a request for one card is returned with both, and a conforming reply whose list is
  empty is returned on the success path (nothing is printed) with no card.
\<close>

theorem length_not_bounded_by_count:
  "returned (generate_flashcards (library_accepting two_card_reply two_card_set)
      \<lparr>llm = model_replying two_card_reply\<rparr> ''Python Programming'' 1 None None
      (None :: unit parser option) None []) = Inr (FlashcardSetObj two_card_set)
   \<and> \<not> length (flashcards two_card_set) \<le> 1
   \<and> parse (flashcard_set_parser (library_accepting no_card_reply no_card_set)) no_card_reply
       = Inr no_card_set
   \<and> returned (generate_flashcards (library_accepting no_card_reply no_card_set)
        \<lparr>llm = model_replying no_card_reply\<rparr> ''Python Programming'' 5 None None
        (None :: unit parser option) None []) = Inr (FlashcardSetObj no_card_set)
   \<and> stdout (generate_flashcards (library_accepting no_card_reply no_card_set)
        \<lparr>llm = model_replying no_card_reply\<rparr> ''Python Programming'' 5 None None
        (None :: unit parser option) None []) = []
   \<and> length (flashcards no_card_set) = 0"
proof -
  have p2: "parse (output_parser (library_accepting two_card_reply two_card_set)
        (None :: unit parser option)) two_card_reply = Inr (FlashcardSetObj two_card_set)"
    by (simp add: parse_output_parser_None parse_library_accepting)
  have p0: "parse (output_parser (library_accepting no_card_reply no_card_set)
        (None :: unit parser option)) no_card_reply = Inr (FlashcardSetObj no_card_set)"
    by (simp add: parse_output_parser_None parse_library_accepting)
  have r2: "returned (generate_flashcards (library_accepting two_card_reply two_card_set)
      \<lparr>llm = model_replying two_card_reply\<rparr> ''Python Programming'' 1 None None
      (None :: unit parser option) None []) = Inr (FlashcardSetObj two_card_set)"
    by (simp add: generate_flashcards_parsed [OF replying_chain_results p2])
  have r0: "returned (generate_flashcards (library_accepting no_card_reply no_card_set)
        \<lparr>llm = model_replying no_card_reply\<rparr> ''Python Programming'' 5 None None
        (None :: unit parser option) None []) = Inr (FlashcardSetObj no_card_set)"
    and s0: "stdout (generate_flashcards (library_accepting no_card_reply no_card_set)
        \<lparr>llm = model_replying no_card_reply\<rparr> ''Python Programming'' 5 None None
        (None :: unit parser option) None []) = []"
    by (simp_all add: generate_flashcards_parsed [OF replying_chain_results p0])
  have l: "\<not> length (flashcards two_card_set) \<le> 1" "length (flashcards no_card_set) = 0"
    by (simp_all add: two_card_set_def no_card_set_def)
  from r2 r0 s0 l show ?thesis by (simp add: parse_library_accepting)
qed

text \<open>
  Claim C3 as amended. For every generation request whose chain returns a reply with
  content, the call returns a \<open>FlashcardSet\<close>; its number of flashcards is 0 on the
  parse-failure
  fallback path and, on success, the number of cards in the reply of the model, which
  the requested count does not bound and which may be 0.
\<close>

theorem flashcards_length_by_path:
  assumes "results (flashcard_chain_invoke lib self topic num pt ci
             (None :: 'm parser option) llm_opt kwargs) = Inr (Content content)"
  shows "\<exists>flashcard_set.
           returned (generate_flashcards lib self topic num pt ci
             (None :: 'm parser option) llm_opt kwargs) = Inr (FlashcardSetObj flashcard_set)
           \<and> length (flashcards flashcard_set) =
               (case parse (flashcard_set_parser lib) content of
                  Inl msg \<Rightarrow> 0
                | Inr parsed \<Rightarrow> length (flashcards parsed))"
proof (cases "parse (flashcard_set_parser lib) content")
  case (Inl msg)
  then have "parse (output_parser lib (None :: 'm parser option)) content = Inl msg"
    by (simp add: parse_output_parser_None)
  from generate_flashcards_fallback [OF assms this] Inl show ?thesis by simp
next
  case (Inr parsed)
  then have "parse (output_parser lib (None :: 'm parser option)) content
      = Inr (FlashcardSetObj parsed)"
    by (simp add: parse_output_parser_None)
  from generate_flashcards_parsed [OF assms this] Inr show ?thesis by simp
qed

text \<open>The statement for a request of 3 cards answered with one card.\<close>

theorem flashcards_length_by_path_witness:
  "results (flashcard_chain_invoke (library_accepting one_card_reply one_card_set)
      \<lparr>llm = model_replying one_card_reply\<rparr> ''Python Programming'' 3 None None
      (None :: unit parser option) None []) = Inr (Content one_card_reply)
   \<and> (\<exists>flashcard_set.
         returned (generate_flashcards (library_accepting one_card_reply one_card_set)
           \<lparr>llm = model_replying one_card_reply\<rparr> ''Python Programming'' 3 None None
           (None :: unit parser option) None []) = Inr (FlashcardSetObj flashcard_set)
         \<and> length (flashcards flashcard_set) = 1)"
proof -
  have h1: "results (flashcard_chain_invoke (library_accepting one_card_reply one_card_set)
      \<lparr>llm = model_replying one_card_reply\<rparr> ''Python Programming'' 3 None None
      (None :: unit parser option) None []) = Inr (Content one_card_reply)"
    by (rule replying_chain_results)
  from flashcards_length_by_path [OF h1] h1 show ?thesis
    by (simp add: parse_library_accepting one_card_set_def)
qed

section \<open>What is raised to the caller (C4)\<close>




section \<open>Prompt construction (C5, C6, C10)\<close>

text \<open>
  Claim C5. Prompt construction is deterministic: two calls with the same topic, count,
  custom instructions and schema description (and the same optional template and extra
  variables, which the specification leaves at their defaults) compose the same prompt,
  whatever the engine, the chat model and the parsing function of each call, and the
  same prompt, if any, reaches the model.
\<close>

theorem prompt_deterministic:
  assumes "get_format_instructions (output_parser lib rm1)
           = get_format_instructions (output_parser lib rm2)"
  shows "flashcard_prompt lib topic num pt ci rm1 kwargs
           = flashcard_prompt lib topic num pt ci rm2 kwargs
         \<and> prompts (generate_flashcards lib self1 topic num pt ci rm1 llm1 kwargs)
           = prompts (generate_flashcards lib self2 topic num pt ci rm2 llm2 kwargs)"
  using assms
  by (simp add: prompts_generate_flashcards sent_flashcard_chain_invoke flashcard_prompt_def)

text \<open>
  The statement for two calls that differ in engine, chat model and response model,
  the two response models having the same format instructions.
\<close>

theorem prompt_deterministic_witness:
  "get_format_instructions (output_parser (library_accepting one_card_reply one_card_set)
       (None :: unit parser option))
     = get_format_instructions (output_parser (library_accepting one_card_reply one_card_set)
         (Some keyword_list_parser))
   \<and> flashcard_prompt (library_accepting one_card_reply one_card_set) ''Python Programming'' 5
        None (Some ''Focus on advanced topics only'') (None :: unit parser option) []
     = flashcard_prompt (library_accepting one_card_reply one_card_set) ''Python Programming'' 5
        None (Some ''Focus on advanced topics only'') (Some keyword_list_parser) []
   \<and> prompts (generate_flashcards (library_accepting one_card_reply one_card_set)
        \<lparr>llm = model_replying one_card_reply\<rparr> ''Python Programming'' 5
        None (Some ''Focus on advanced topics only'') (None :: unit parser option) None [])
     = prompts (generate_flashcards (library_accepting one_card_reply one_card_set)
        \<lparr>llm = model_unreachable\<rparr> ''Python Programming'' 5
        None (Some ''Focus on advanced topics only'') (Some keyword_list_parser)
        (Some (model_replying prose_reply)) [])"
proof -
  have h: "get_format_instructions (output_parser (library_accepting one_card_reply one_card_set)
       (None :: unit parser option))
     = get_format_instructions (output_parser (library_accepting one_card_reply one_card_set)
         (Some keyword_list_parser))"
    by (simp add: output_parser_def library_accepting_def parser_accepting_def
        keyword_list_parser_def)
  from prompt_deterministic [OF h] h show ?thesis by blast
qed

text \<open>
  Claim C6 says that every non-empty text of custom instructions appears verbatim in
  the composed prompt, after the base instructions and before the format instructions.
  For brace-free instructions this is \<open>default_flashcard_prompt\<close> above. But line 93
  appends the text to the template before the template is rendered, so braces in it are
  read as template syntax: with the instructions below, \<open>{x}\<close> is taken for a
  variable without a value, the call raises \<open>KeyError\<close> and no prompt is composed.
\<close>

theorem custom_instructions_with_braces_raise:
  "returned (generate_flashcards (library_accepting one_card_reply one_card_set)
      \<lparr>llm = model_replying one_card_reply\<rparr> ''Algebra'' 5 None
      (Some ''Use {x} as the unknown in every equation'')
      (None :: unit parser option) None []) = Inl (KeyError ''x'')
   \<and> prompts (generate_flashcards (library_accepting one_card_reply one_card_set)
      \<lparr>llm = model_replying one_card_reply\<rparr> ''Algebra'' 5 None
      (Some ''Use {x} as the unknown in every equation'')
      (None :: unit parser option) None []) = []"
  by code_simp

text \<open>
  Claim C10. Empty custom instructions are treated exactly like absent ones: no
  section of additional instructions is appended (the template is the base template
  followed by the footer), the composed template equals the one composed without
  custom instructions, and so does the whole outcome of the call.
\<close>

theorem empty_custom_instructions_as_absent:
  "compose_prompt_template pt (Some []) = base_prompt_template pt @ json_format_footer
   \<and> compose_prompt_template pt (Some []) = compose_prompt_template pt None
   \<and> generate_flashcards lib self topic num pt (Some []) rm llm_opt kwargs
       = generate_flashcards lib self topic num pt None rm llm_opt kwargs"
  by (simp add: compose_prompt_template_def generate_flashcards_def flashcard_chain_invoke_def
      flashcard_prompt_def Let_def)

section \<open>The gate on the topic (C7, C9)\<close>

text \<open>
  Claim C7. With an empty topic, a run of the script makes no call of
  \<open>generate_flashcards\<close>, whether the button was pressed or not, and a press of the
  button draws the warning and nothing else.
\<close>

theorem empty_topic_never_generates:
  "generate_calls (generate_button_handler lib content_engine pressed [] num_cards) = []
   \<and> generate_button_handler lib content_engine True [] num_cards =
       \<lparr>generate_calls = [], elements = [Warning warning_text], printed = [], uncaught = None\<rparr>"
  by (simp add: generate_button_handler_def)

text \<open>
  Claim C9. Only the empty string is rejected: for every non-empty topic, a topic made
  of white space included, a press of the button makes one generation call,
  \<open>generate_flashcards\<close> with that topic and the number of cards and every other
  argument left out, and the page is the one that call yields: what the call printed,
  the exception it raised if it raised, and otherwise the success line and one expander
  for each flashcard of the set it returned. The warning for a missing topic is not
  drawn.
\<close>

theorem nonempty_topic_generates:
  assumes "topic \<noteq> []"
  shows "generate_calls (generate_button_handler lib content_engine True topic num_cards)
           = [(topic, num_cards)]
         \<and> printed (generate_button_handler lib content_engine True topic num_cards)
           = stdout (generate_flashcards lib content_engine topic num_cards None None
                       (None :: unit parser option) None [])
         \<and> uncaught (generate_button_handler lib content_engine True topic num_cards)
           = (case returned (generate_flashcards lib content_engine topic num_cards None None
                       (None :: unit parser option) None []) of
                Inl e \<Rightarrow> Some e
              | Inr obj \<Rightarrow> None)
         \<and> elements (generate_button_handler lib content_engine True topic num_cards)
           = (case returned (generate_flashcards lib content_engine topic num_cards None None
                       (None :: unit parser option) None []) of
                Inl e \<Rightarrow> [Spinner spinner_text]
              | Inr (FlashcardSetObj flashcard_set) \<Rightarrow>
                  Spinner spinner_text # Success (success_text flashcard_set)
                    # map flashcard_expander (List.enumerate 1 (flashcards flashcard_set))
              | Inr (ModelObj m) \<Rightarrow> [Spinner spinner_text])
         \<and> Warning warning_text
             \<notin> set (elements (generate_button_handler lib content_engine True topic num_cards))"
proof (cases "returned (generate_flashcards lib content_engine topic num_cards None None
                       (None :: unit parser option) None [])")
  case (Inl e)
  with assms show ?thesis
    by (simp add: generate_button_handler_def Let_def)
next
  case (Inr obj)
  show ?thesis
  proof (cases obj)
    case (FlashcardSetObj flashcard_set)
    with Inr assms show ?thesis
      by (auto simp add: generate_button_handler_def Let_def flashcard_expander_def)
  next
    case (ModelObj m)
    with Inr default_model_returns_FlashcardSet
      [of lib content_engine topic num_cards None None None "[]" m]
    show ?thesis by simp
  qed
qed

text \<open>
  The statement for the topic that is a single space, answered with one card: the
  page shows the success line and the expander of that card.
\<close>

theorem nonempty_topic_generates_witness:
  "'' '' \<noteq> []
   \<and> generate_calls (generate_button_handler (library_accepting one_card_reply one_card_set)
        \<lparr>llm = model_replying one_card_reply\<rparr> True '' '' 5) = [('' '', 5)]
   \<and> printed (generate_button_handler (library_accepting one_card_reply one_card_set)
        \<lparr>llm = model_replying one_card_reply\<rparr> True '' '' 5)
       = stdout (generate_flashcards (library_accepting one_card_reply one_card_set)
           \<lparr>llm = model_replying one_card_reply\<rparr> '' '' 5 None None
           (None :: unit parser option) None [])
   \<and> uncaught (generate_button_handler (library_accepting one_card_reply one_card_set)
        \<lparr>llm = model_replying one_card_reply\<rparr> True '' '' 5) = None
   \<and> elements (generate_button_handler (library_accepting one_card_reply one_card_set)
        \<lparr>llm = model_replying one_card_reply\<rparr> True '' '' 5)
       = Spinner spinner_text # Success (success_text one_card_set)
           # map flashcard_expander (List.enumerate 1 (flashcards one_card_set))
   \<and> Warning warning_text
       \<notin> set (elements (generate_button_handler (library_accepting one_card_reply one_card_set)
                \<lparr>llm = model_replying one_card_reply\<rparr> True '' '' 5))"
proof -
  have h: "'' '' \<noteq> []" by simp
  have p: "parse (output_parser (library_accepting one_card_reply one_card_set)
        (None :: unit parser option)) one_card_reply = Inr (FlashcardSetObj one_card_set)"
    by (simp add: parse_output_parser_None parse_library_accepting)
  have r: "returned (generate_flashcards (library_accepting one_card_reply one_card_set)
        \<lparr>llm = model_replying one_card_reply\<rparr> '' '' 5 None None
        (None :: unit parser option) None []) = Inr (FlashcardSetObj one_card_set)"
    by (simp add: generate_flashcards_parsed [OF replying_chain_results p])
  note t = nonempty_topic_generates [OF h, of "library_accepting one_card_reply one_card_set"
      "\<lparr>llm = model_replying one_card_reply\<rparr>" 5, unfolded r sum.case structured_output.case]
  from h t show ?thesis by blast
qed

end
